theory Spec2Isabelle
  imports Main
begin

section \<open>JavaScript values that cross the network boundary\<close>

text \<open>
  The chat front end (\<^verbatim>\<open>src/App.jsx\<close>) exchanges JSON documents with the backend.
  A parsed document is a \<open>json\<close> value; numbers are restricted to integers, which is all
  the status codes and location indices of the error bodies need. A JavaScript value that
  may be \<^verbatim>\<open>undefined\<close> is a \<open>json option\<close>, with \<open>None\<close> for \<^verbatim>\<open>undefined\<close>.
\<close>

datatype json =
    JNull
  | JBool bool
  | JNum int
  | JStr string
  | JArr "json list"
  | JObj "(string \<times> json) list"

text \<open>Exceptions of the language, each carrying its message.\<close>

datatype js_error =
    Error string
  | TypeError string
  | SyntaxError string
  | ReferenceError string

definition digit_char :: "nat \<Rightarrow> char" where
  "digit_char d = ''0123456789'' ! d"

fun show_nat :: "nat \<Rightarrow> string" where
  "show_nat n = (if n < 10 then [digit_char n] else show_nat (n div 10) @ [digit_char (n mod 10)])"

declare show_nat.simps [simp del]

definition show_int :: "int \<Rightarrow> string" where
  "show_int i = (if i < 0 then ''-'' @ show_nat (nat (- i)) else show_nat (nat i))"

text \<open>\<^verbatim>\<open>Array.prototype.join\<close> on strings: the pieces separated by \<open>sep\<close>.\<close>

fun intercalate :: "string \<Rightarrow> string list \<Rightarrow> string" where
  "intercalate sep [] = []"
| "intercalate sep [x] = x"
| "intercalate sep (x # y # ys) = x @ sep @ intercalate sep (y # ys)"

text \<open>
  \<^verbatim>\<open>ToString\<close>, as a template literal applies it. An array prints its elements joined by
  commas, with \<^verbatim>\<open>null\<close> elements printed as the empty string; an object prints as
  \<^verbatim>\<open>[object Object]\<close>.
\<close>

fun js_to_string :: "json \<Rightarrow> string" where
  "js_to_string JNull = ''null''"
| "js_to_string (JBool b) = (if b then ''true'' else ''false'')"
| "js_to_string (JNum n) = show_int n"
| "js_to_string (JStr s) = s"
| "js_to_string (JArr xs) =
     intercalate '','' (map (\<lambda>x. if x = JNull then [] else js_to_string x) xs)"
| "js_to_string (JObj kvs) = ''[object Object]''"

definition js_join :: "json list \<Rightarrow> string \<Rightarrow> string" where
  "js_join xs sep = intercalate sep (map (\<lambda>x. if x = JNull then [] else js_to_string x) xs)"

definition template :: "json option \<Rightarrow> string" where
  "template v = (case v of None \<Rightarrow> ''undefined'' | Some x \<Rightarrow> js_to_string x)"

text \<open>Truthiness, as \<^verbatim>\<open>||\<close>, \<^verbatim>\<open>&&\<close> and \<^verbatim>\<open>!\<close> test it.\<close>

fun truthy :: "json \<Rightarrow> bool" where
  "truthy JNull = False"
| "truthy (JBool b) = b"
| "truthy (JNum n) = (n \<noteq> 0)"
| "truthy (JStr s) = (s \<noteq> [])"
| "truthy (JArr xs) = True"
| "truthy (JObj kvs) = True"

definition truthy_opt :: "json option \<Rightarrow> bool" where
  "truthy_opt v = (case v of None \<Rightarrow> False | Some x \<Rightarrow> truthy x)"

text \<open>
  Property access \<^verbatim>\<open>v.name\<close> for the names the program reads (\<^verbatim>\<open>detail\<close>, \<^verbatim>\<open>loc\<close>,
  \<^verbatim>\<open>msg\<close>, \<^verbatim>\<open>type\<close>, \<^verbatim>\<open>data\<close>, \<^verbatim>\<open>text\<close>): it throws on \<^verbatim>\<open>null\<close>, reads the member of
  an object, and is \<^verbatim>\<open>undefined\<close> on every other value.
\<close>

fun get_member :: "json \<Rightarrow> string \<Rightarrow> js_error + json option" where
  "get_member JNull name = Inl (TypeError (''Cannot read properties of null (reading '' @ name @ '')''))"
| "get_member (JObj kvs) name = Inr (map_of kvs name)"
| "get_member v name = Inr None"

section \<open>\<^verbatim>\<open>fetchApi\<close>: the helper for API calls\<close>

record response =
  status :: nat
  body_json :: "json option"

text \<open>
  \<open>body_json\<close> is what \<^verbatim>\<open>response.json()\<close> yields: \<open>None\<close> when the body does not parse
  and the promise rejects. \<^verbatim>\<open>response.ok\<close> is true for the statuses 200 to 299.
\<close>

definition ok :: "response \<Rightarrow> bool" where
  "ok r = (200 \<le> status r \<and> status r \<le> 299)"

text \<open>The outcome of \<^verbatim>\<open>fetch\<close>: the promise rejects (network failure) or resolves.\<close>

datatype fetch_result =
    Rejected js_error
  | Resolved response

text \<open>\<^verbatim>\<open>err.loc?.join('.')\<close>: undefined on a missing or null \<^verbatim>\<open>loc\<close>, a call of
  \<^verbatim>\<open>join\<close> on an array, a \<^verbatim>\<open>TypeError\<close> on any other value, which has no such method.\<close>

fun optional_join :: "json option \<Rightarrow> string \<Rightarrow> js_error + json option" where
  "optional_join None sep = Inr None"
| "optional_join (Some JNull) sep = Inr None"
| "optional_join (Some (JArr xs)) sep = Inr (Some (JStr (js_join xs sep)))"
| "optional_join (Some v) sep = Inl (TypeError ''err.loc?.join is not a function'')"

text \<open>The callback \<^verbatim>\<open>err => `${err.loc?.join('.')}: ${err.msg}`\<close>.\<close>

definition format_err :: "json \<Rightarrow> js_error + string" where
  "format_err err =
     (case get_member err ''loc'' of
        Inl e \<Rightarrow> Inl e
      | Inr loc \<Rightarrow>
          (case optional_join loc ''.'' of
             Inl e \<Rightarrow> Inl e
           | Inr locText \<Rightarrow>
               (case get_member err ''msg'' of
                  Inl e \<Rightarrow> Inl e
                | Inr msg \<Rightarrow> Inr (template locText @ '': '' @ template msg))))"

text \<open>\<^verbatim>\<open>Array.prototype.map\<close> with a callback that may throw: the first throw aborts.\<close>

fun first_throw :: "(js_error + 'b) list \<Rightarrow> js_error + 'b list" where
  "first_throw [] = Inr []"
| "first_throw (r # rs) =
     (case r of
        Inl e \<Rightarrow> Inl e
      | Inr y \<Rightarrow> (case first_throw rs of Inl e \<Rightarrow> Inl e | Inr ys \<Rightarrow> Inr (y # ys)))"

definition map_throwing :: "('a \<Rightarrow> js_error + 'b) \<Rightarrow> 'a list \<Rightarrow> js_error + 'b list" where
  "map_throwing f xs = first_throw (map f xs)"

text \<open>
  The \<^verbatim>\<open>try\<close> block of the error branch. \<open>errorDetail\<close> starts as the status line; each
  assignment that completes before a throw is kept, and the \<^verbatim>\<open>catch\<close> only logs.
\<close>

definition error_detail :: "response \<Rightarrow> json" where
  "error_detail r =
     (let errorDetail = JStr (''API Error: '' @ show_nat (status r)) in
      case body_json r of
        None \<Rightarrow> errorDetail
      | Some errorData \<Rightarrow>
          (case get_member errorData ''detail'' of
             Inl e \<Rightarrow> errorDetail
           | Inr detail \<Rightarrow>
               (let errorDetail' = (case detail of
                                      None \<Rightarrow> errorDetail
                                    | Some d \<Rightarrow> if truthy d then d else errorDetail) in
                case detail of
                  Some (JArr errs) \<Rightarrow>
                    (case map_throwing format_err errs of
                       Inl e \<Rightarrow> errorDetail'
                     | Inr texts \<Rightarrow> JStr (intercalate ''; '' texts))
                | _ \<Rightarrow> errorDetail')))"

definition fetchApi :: "fetch_result \<Rightarrow> js_error + json" where
  "fetchApi fr =
     (case fr of
        Rejected e \<Rightarrow> Inl e
      | Resolved r \<Rightarrow>
          if \<not> ok r then Inl (Error (js_to_string (error_detail r)))
          else if status r = 204 then Inr JNull
          else (case body_json r of
                  None \<Rightarrow> Inl (SyntaxError ''Unexpected token in JSON'')
                | Some jsonData \<Rightarrow> Inr jsonData))"

subsection \<open>The error text the specification describes\<close>







section \<open>The dialogue controller: \<^verbatim>\<open>ChatInterface\<close>\<close>

text \<open>
  The component's state is the six \<^verbatim>\<open>useState\<close> cells. A message is a sender and a
  content; its \<^verbatim>\<open>id\<close> (\<^verbatim>\<open>Date.now() + Math.random()\<close>) is only a rendering key and is
  left out. The content is a JavaScript value: the summary string of the chosen operation
  for a user message, an instruction object for an assistant message.
\<close>

datatype party = User | Assistant

record message =
  sender :: party
  content :: "json option"

text \<open>An entry of the catalog (\<^verbatim>\<open>id\<close>, \<^verbatim>\<open>method\<close>, \<^verbatim>\<open>path\<close>, \<^verbatim>\<open>summary\<close>) and the
  \<^verbatim>\<open>apiDetails\<close> object the selector builds from it. A member the catalog leaves out is
  \<open>None\<close>.\<close>

record operation =
  op_id :: string
  op_method :: "string option"
  op_path :: "string option"
  summary :: string

record api_details =
  api_path :: "string option"
  api_method :: "string option"

text \<open>The argument of \<^verbatim>\<open>handleUserInput\<close>, by its \<^verbatim>\<open>type\<close> member: an intent from the
  selector, a parameter from a widget (the value is whatever the widget submits), or any
  other object.\<close>

datatype 'v user_input =
    Intent string "api_details option"
  | Parameter string 'v
  | OtherInput

text \<open>The body posted to the chat endpoint; \<open>UndefinedBody\<close> is the \<^verbatim>\<open>requestBody\<close> that
  the empty last branch leaves unassigned.\<close>

datatype 'v request_body =
    IntentBody string string string string
  | ParameterBody string string 'v
  | UndefinedBody

definition USER_ID :: string where
  "USER_ID = ''ui_user_enh''"

record 'v chat_state =
  messages :: "message list"
  isAssistantTyping :: bool
  currentInteractionDisabled :: bool
  availableOperations :: "operation list"
  fetchError :: "string option"
  currentApiOperation :: "api_details option"
  chatInFlight :: "'v request_body list"
  catalogInFlight :: bool

text \<open>
  \<open>chatInFlight\<close> and \<open>catalogInFlight\<close> are not cells of the component: they record the
  network calls that have started and not yet settled, so that properties about
  outstanding round trips can be stated.

  A handler is a sequence of effects, in the order the source performs them: calls of
  the state setters and of \<^verbatim>\<open>fetch\<close>.
\<close>

datatype 'v effect =
    AddMessage party "json option"
  | SetCurrentApiOperation "api_details option"
  | SetIsAssistantTyping bool
  | SetCurrentInteractionDisabled bool
  | SetFetchError "string option"
  | SetAvailableOperations "operation list"
  | FetchChat "'v request_body"
  | FetchOperations

fun apply_effect :: "'v chat_state \<Rightarrow> 'v effect \<Rightarrow> 'v chat_state" where
  "apply_effect st (AddMessage who c) =
     st\<lparr>messages := messages st @ [\<lparr>sender = who, content = c\<rparr>]\<rparr>"
| "apply_effect st (SetCurrentApiOperation d) = st\<lparr>currentApiOperation := d\<rparr>"
| "apply_effect st (SetIsAssistantTyping b) = st\<lparr>isAssistantTyping := b\<rparr>"
| "apply_effect st (SetCurrentInteractionDisabled b) = st\<lparr>currentInteractionDisabled := b\<rparr>"
| "apply_effect st (SetFetchError e) = st\<lparr>fetchError := e\<rparr>"
| "apply_effect st (SetAvailableOperations ops) = st\<lparr>availableOperations := ops\<rparr>"
| "apply_effect st (FetchChat body) = st\<lparr>chatInFlight := chatInFlight st @ [body]\<rparr>"
| "apply_effect st FetchOperations = st\<lparr>catalogInFlight := True\<rparr>"

definition run :: "'v effect list \<Rightarrow> 'v chat_state \<Rightarrow> 'v chat_state" where
  "run effs st = foldl apply_effect st effs"

text \<open>The instruction object \<^verbatim>\<open>{ prompt: p, ui_component: null }\<close>; an undefined \<^verbatim>\<open>p\<close>
  leaves the object without a readable \<^verbatim>\<open>prompt\<close>.\<close>

definition prompt_message :: "json option \<Rightarrow> json" where
  "prompt_message p =
     JObj ((case p of None \<Rightarrow> [] | Some v \<Rightarrow> [(''prompt'', v)]) @ [(''ui_component'', JNull)])"

definition error_message :: "js_error \<Rightarrow> string" where
  "error_message e =
     (case e of Error m \<Rightarrow> m | TypeError m \<Rightarrow> m | SyntaxError m \<Rightarrow> m | ReferenceError m \<Rightarrow> m)"

subsection \<open>\<^verbatim>\<open>handleUserInput\<close>\<close>

text \<open>The short circuit for an intent without a usable path or method.\<close>

definition unmapped_intent :: "string \<Rightarrow> 'v effect list" where
  "unmapped_intent v =
     [AddMessage Assistant (Some (prompt_message (Some (JStr
        (''Sorry, I couldn'' @ [CHR 0x27] @ ''t map '' @ [CHR 0x27] @ v @ [CHR 0x27]
         @ '' to a known API action. Please select from the list.''))))),
      SetIsAssistantTyping False,
      SetCurrentInteractionDisabled False,
      SetCurrentApiOperation None]"

text \<open>
  The part of \<^verbatim>\<open>handleUserInput\<close> that runs before the \<^verbatim>\<open>await\<close>. The test
  \<^verbatim>\<open>!input.apiDetails || !input.apiDetails.path || !input.apiDetails.method\<close> fails on a
  missing object, and on a missing or empty path or method.
\<close>

definition build_request :: "'v user_input \<Rightarrow> 'v effect list" where
  "build_request input =
     (case input of
        Intent v apiDetails \<Rightarrow>
          (case apiDetails of
             None \<Rightarrow> unmapped_intent v
           | Some d \<Rightarrow>
               (case api_path d of
                  None \<Rightarrow> unmapped_intent v
                | Some p \<Rightarrow>
                    if p = [] then unmapped_intent v
                    else (case api_method d of
                            None \<Rightarrow> unmapped_intent v
                          | Some m \<Rightarrow>
                              if m = [] then unmapped_intent v
                              else [FetchChat (IntentBody USER_ID v p m)])))
      | Parameter name v \<Rightarrow> [FetchChat (ParameterBody USER_ID name v)]
      | OtherInput \<Rightarrow> [FetchChat UndefinedBody])"

definition handleUserInput_start :: "'v user_input \<Rightarrow> 'v effect list" where
  "handleUserInput_start input =
     (case input of
        Intent v apiDetails \<Rightarrow> [AddMessage User (Some (JStr v)), SetCurrentApiOperation apiDetails]
      | _ \<Rightarrow> [])
     @ [SetIsAssistantTyping True, SetCurrentInteractionDisabled True, SetFetchError None]
     @ build_request input"

text \<open>The \<^verbatim>\<open>catch\<close> block.\<close>

definition on_chat_error :: "js_error \<Rightarrow> 'v effect list" where
  "on_chat_error e =
     [AddMessage Assistant (Some (prompt_message (Some (JStr (''Error: '' @ error_message e))))),
      SetCurrentInteractionDisabled False,
      SetCurrentApiOperation None]"

text \<open>
  The part after the \<^verbatim>\<open>await\<close>: the \<^verbatim>\<open>try\<close> body on the value \<^verbatim>\<open>fetchApi\<close> returned,
  the \<^verbatim>\<open>catch\<close> block on what it threw or on the \<^verbatim>\<open>TypeError\<close> of reading \<^verbatim>\<open>type\<close> from
  \<^verbatim>\<open>null\<close>, then the \<^verbatim>\<open>finally\<close> block. The last \<^verbatim>\<open>else\<close> of the source is empty.
\<close>

definition on_chat_response :: "json \<Rightarrow> 'v effect list" where
  "on_chat_response backendResponse =
     (case get_member backendResponse ''type'' of
        Inl e \<Rightarrow> on_chat_error e
      | Inr ty \<Rightarrow>
          if ty = Some (JStr ''ui_instruction'') then
            (case get_member backendResponse ''data'' of
               Inl e \<Rightarrow> on_chat_error e
             | Inr d \<Rightarrow> [AddMessage Assistant d, SetCurrentInteractionDisabled False])
          else if ty = Some (JStr ''final_message'') \<or> ty = Some (JStr ''error_message'') then
            (case get_member backendResponse ''text'' of
               Inl e \<Rightarrow> on_chat_error e
             | Inr t \<Rightarrow>
                 [AddMessage Assistant (Some (prompt_message t)),
                  SetCurrentInteractionDisabled False,
                  SetCurrentApiOperation None])
          else [])"

definition handleUserInput_settle :: "fetch_result \<Rightarrow> 'v effect list" where
  "handleUserInput_settle fr =
     (case fetchApi fr of
        Inl e \<Rightarrow> on_chat_error e
      | Inr backendResponse \<Rightarrow> on_chat_response backendResponse)
     @ [SetIsAssistantTyping False]"

subsection \<open>The catalog fetch and the first message\<close>

text \<open>\<^verbatim>\<open>fetchOps\<close>: the catalog arrives as a list of operations, or the call throws.\<close>

definition fetchOps_start :: "'v effect list" where
  "fetchOps_start = [SetFetchError None, FetchOperations]"

definition fetchOps_settle :: "js_error + operation list \<Rightarrow> 'v effect list" where
  "fetchOps_settle res =
     (case res of
        Inr ops \<Rightarrow> [SetAvailableOperations ops]
      | Inl e \<Rightarrow>
          (let errorMsg = ''Failed to load available API operations: '' @ error_message e in
           [SetFetchError (Some errorMsg),
            AddMessage Assistant (Some (prompt_message (Some (JStr errorMsg))))]))"

definition initial_state :: "'v chat_state" where
  "initial_state =
     \<lparr>messages = [], isAssistantTyping = False, currentInteractionDisabled = False,
      availableOperations = [], fetchError = None, currentApiOperation = None,
      chatInFlight = [], catalogInFlight = False\<rparr>"

definition mounted :: "'v chat_state" where
  "mounted =
     run (fetchOps_start @
          [AddMessage Assistant (Some (prompt_message (Some (JStr
             ''Hello! Please select an API operation above to begin.''))))])
         initial_state"

subsection \<open>The events of the user interface\<close>

text \<open>
  The selector's \<^verbatim>\<open>select\<close> element carries
  \<^verbatim>\<open>disabled={disabled || operations.length === 0}\<close>, where \<^verbatim>\<open>disabled\<close> is
  \<^verbatim>\<open>isAssistantTyping || currentInteractionDisabled || !!currentApiOperation\<close>; every
  control of every widget carries \<^verbatim>\<open>disabled={currentInteractionDisabled}\<close>. A disabled
  control delivers no event, so its handler does not run.
\<close>

definition OperationSelector_disabled :: "'v chat_state \<Rightarrow> bool" where
  "OperationSelector_disabled st =
     ((isAssistantTyping st \<or> currentInteractionDisabled st \<or> currentApiOperation st \<noteq> None)
      \<or> availableOperations st = [])"

text \<open>\<^verbatim>\<open>handleChange\<close> of the selector: the chosen entry, if the catalog has it, becomes
  an intent.\<close>

definition OperationSelector_handleChange :: "string \<Rightarrow> operation list \<Rightarrow> 'v user_input option" where
  "OperationSelector_handleChange opId operations =
     (case find (\<lambda>op. op_id op = opId) operations of
        None \<Rightarrow> None
      | Some selectedOp \<Rightarrow>
          Some (Intent (summary selectedOp)
                  (Some \<lparr>api_path = op_path selectedOp, api_method = op_method selectedOp\<rparr>)))"

datatype 'v event =
    SelectOperation string
  | SubmitParameter string 'v
  | ChatSettled nat fetch_result
  | CatalogSettled "js_error + operation list"

text \<open>
  One event of the single-threaded loop. \<open>ChatSettled i fr\<close> settles the \<open>i\<close>-th call in
  flight with outcome \<open>fr\<close>; an event for a call that is not in flight does not occur.
\<close>

fun dispatch :: "'v event \<Rightarrow> 'v chat_state \<Rightarrow> 'v chat_state" where
  "dispatch (SelectOperation opId) st =
     (if OperationSelector_disabled st then st
      else (case OperationSelector_handleChange opId (availableOperations st) of
              None \<Rightarrow> st
            | Some input \<Rightarrow> run (handleUserInput_start input) st))"
| "dispatch (SubmitParameter name v) st =
     (if currentInteractionDisabled st then st
      else run (handleUserInput_start (Parameter name v)) st)"
| "dispatch (ChatSettled i fr) st =
     (if i < length (chatInFlight st)
      then run (handleUserInput_settle fr)
             (st\<lparr>chatInFlight := take i (chatInFlight st) @ drop (Suc i) (chatInFlight st)\<rparr>)
      else st)"
| "dispatch (CatalogSettled res) st =
     (if catalogInFlight st then run (fetchOps_settle res) (st\<lparr>catalogInFlight := False\<rparr>)
      else st)"

fun run_events :: "'v event list \<Rightarrow> 'v chat_state \<Rightarrow> 'v chat_state" where
  "run_events [] st = st"
| "run_events (ev # evs) st = run_events evs (dispatch ev st)"

section \<open>The widgets\<close>

text \<open>
  What a widget's handler does besides updating its own state: it may cancel the default
  action of the key or form event, raise an alert, change the validity flag, and call the
  \<^verbatim>\<open>onSubmit\<close> callback with the parameter's name and a value.
\<close>

datatype 'v widget_effect =
    PreventDefault
  | Alert string
  | SetIsValidJson bool
  | OnSubmit string 'v

text \<open>\<^verbatim>\<open>String.prototype.trim\<close> on the white space of ASCII.\<close>

definition is_space :: "char \<Rightarrow> bool" where
  "is_space c = (c \<in> set [CHR '' '', CHR 0x09, CHR 0x0A, CHR 0x0B, CHR 0x0C, CHR 0x0D])"

definition trim :: "string \<Rightarrow> string" where
  "trim s = rev (dropWhile is_space (rev (dropWhile is_space s)))"

subsection \<open>\<^verbatim>\<open>ChatTagsInput\<close>\<close>

text \<open>
  A tag is a string, or a number as \<^verbatim>\<open>parseFloat\<close> returns it. \<^verbatim>\<open>parseFloat\<close> is the
  platform's function and is a parameter here: \<open>None\<close> is \<^verbatim>\<open>NaN\<close>, and \<open>'n\<close> is the type
  of the other numbers, compared as \<^verbatim>\<open>Array.prototype.includes\<close> compares them.
\<close>

datatype 'n tag = TagString string | TagNumber 'n

record 'n tags_input =
  inputValue :: string
  tags :: "'n tag list"

definition handleKeyDown ::
  "(string \<Rightarrow> 'n option) \<Rightarrow> string \<Rightarrow> string \<Rightarrow> string \<Rightarrow> 'n tags_input
     \<Rightarrow> 'n tags_input \<times> 'n tag list widget_effect list" where
  "handleKeyDown parseFloat parameter_name item_type key w =
     (if key \<in> set [''Enter'', '','', '' ''] \<and> trim (inputValue w) \<noteq> [] then
        (let newTagValue = trim (inputValue w) in
         case (if item_type = ''integer'' \<or> item_type = ''number''
               then (case parseFloat newTagValue of
                       Some num \<Rightarrow> Some (TagNumber num)
                     | None \<Rightarrow> None)
               else Some (TagString newTagValue)) of
           None \<Rightarrow>
             (w, [PreventDefault,
                  Alert (''Tag '' @ [CHR 0x22] @ newTagValue @ [CHR 0x22]
                         @ '' is not a valid '' @ item_type @ ''.'')])
         | Some processedTag \<Rightarrow>
             if processedTag \<notin> set (tags w) then
               (let newTags = tags w @ [processedTag] in
                (w\<lparr>tags := newTags, inputValue := []\<rparr>,
                 [PreventDefault, OnSubmit parameter_name newTags]))
             else (w\<lparr>inputValue := []\<rparr>, [PreventDefault]))
      else if key = ''Backspace'' \<and> inputValue w = [] \<and> tags w \<noteq> [] then
        (let newTags = butlast (tags w) in
         (w\<lparr>tags := newTags\<rparr>, [PreventDefault, OnSubmit parameter_name newTags]))
      else (w, []))"

text \<open>\<^verbatim>\<open>tags.filter((_, index) => index !== indexToRemove)\<close>.\<close>

definition remove_index :: "nat \<Rightarrow> 'a list \<Rightarrow> 'a list" where
  "remove_index i xs = map snd (filter (\<lambda>p. fst p \<noteq> i) (enumerate 0 xs))"

definition removeTag ::
  "string \<Rightarrow> nat \<Rightarrow> 'n tags_input \<Rightarrow> 'n tags_input \<times> 'n tag list widget_effect list" where
  "removeTag parameter_name indexToRemove w =
     (let newTags = remove_index indexToRemove (tags w) in
      (w\<lparr>tags := newTags\<rparr>, [OnSubmit parameter_name newTags]))"

definition handleInputChange :: "string \<Rightarrow> 'n tags_input \<Rightarrow> 'n tags_input" where
  "handleInputChange v w = w\<lparr>inputValue := v\<rparr>"

subsection \<open>\<^verbatim>\<open>ChatJsonInput\<close>\<close>

text \<open>\<^verbatim>\<open>typeof\<close> of a value that may be undefined.\<close>

definition typeof :: "json option \<Rightarrow> string" where
  "typeof v =
     (case v of
        None \<Rightarrow> ''undefined''
      | Some JNull \<Rightarrow> ''object''
      | Some (JBool b) \<Rightarrow> ''boolean''
      | Some (JNum n) \<Rightarrow> ''number''
      | Some (JStr s) \<Rightarrow> ''string''
      | Some (JArr xs) \<Rightarrow> ''object''
      | Some (JObj kvs) \<Rightarrow> ''object'')"

text \<open>
  \<^verbatim>\<open>handleSubmit\<close> of the JSON widget on the text \<open>v\<close> of the field. \<^verbatim>\<open>JSON.parse\<close> is
  the platform's function and is a parameter. The first component of the triple built in
  the \<^verbatim>\<open>let\<close> is \<^verbatim>\<open>submittedValue\<close>, the second \<^verbatim>\<open>parseError\<close>.
\<close>

definition handleSubmit ::
  "(string \<Rightarrow> js_error + json) \<Rightarrow> string \<Rightarrow> string \<Rightarrow> json widget_effect list" where
  "handleSubmit JSON_parse parameter_name v =
     (let (submittedValue, parseError, effs) =
            (if trim v = [] then (JNull, False, [SetIsValidJson True])
             else (case JSON_parse v of
                     Inr doc \<Rightarrow> (doc, False, [SetIsValidJson True])
                   | Inl e \<Rightarrow>
                       (JStr v, True,
                        [SetIsValidJson False,
                         Alert ''Warning: Submitting potentially invalid JSON string.''])))
      in [PreventDefault] @ effs @
         (if \<not> parseError \<or> submittedValue = JNull \<or> typeof (Some submittedValue) = ''string''
          then [OnSubmit parameter_name submittedValue]
          else [Alert ''Please fix invalid JSON.'']))"

section \<open>Rendering\<close>

subsection \<open>\<^verbatim>\<open>renderDynamicComponent\<close>\<close>

datatype widget =
    ChatTextInput
  | ChatDropdown
  | ChatNumberInput
  | ChatCheckbox
  | ChatDatePickerNative
  | ChatJsonInput
  | ChatDateTimePicker
  | ChatTagsInput

text \<open>
  The elements the function builds: a paragraph with its class and children, a widget
  with its \<^verbatim>\<open>componentDetails\<close> and \<^verbatim>\<open>disabled\<close> properties, and the \<^verbatim>\<open>div\<close> holding
  the prompt element, which may be \<^verbatim>\<open>null\<close>, and the input element.
\<close>

datatype element =
    Paragraph string "json option list"
  | Control widget json bool
  | Division "element option" element

text \<open>The \<^verbatim>\<open>switch\<close> on \<^verbatim>\<open>componentType\<close>, which compares with \<^verbatim>\<open>===\<close>.\<close>

definition widget_of :: "json option \<Rightarrow> widget option" where
  "widget_of componentType =
     (if componentType = Some (JStr ''text_input'') then Some ChatTextInput
      else if componentType = Some (JStr ''dropdown'') then Some ChatDropdown
      else if componentType = Some (JStr ''number_input'') then Some ChatNumberInput
      else if componentType = Some (JStr ''checkbox'') then Some ChatCheckbox
      else if componentType = Some (JStr ''date_picker'') then Some ChatDatePickerNative
      else if componentType = Some (JStr ''json_input'') then Some ChatJsonInput
      else if componentType = Some (JStr ''datetime_picker'') then Some ChatDateTimePicker
      else if componentType = Some (JStr ''tags_input'') then Some ChatTagsInput
      else None)"

definition invalid_message_format :: element where
  "invalid_message_format =
     Paragraph ''text-red-500 italic'' [Some (JStr ''[Invalid Message Format]'')]"

definition unsupported_ui_type :: "json option \<Rightarrow> element" where
  "unsupported_ui_type componentType =
     Paragraph ''text-sm text-red-500 italic''
       [Some (JStr ''(Unsupported UI type: ''), componentType, Some (JStr '')'')]"

text \<open>The function after its first two lines, on a value that is truthy and no string.\<close>

definition render_instruction :: "json \<Rightarrow> bool \<Rightarrow> js_error + element option" where
  "render_instruction instructionContent disabled =
     (case get_member instructionContent ''prompt'' of
        Inl e \<Rightarrow> Inl e
      | Inr prompt \<Rightarrow>
          (case get_member instructionContent ''ui_component'' of
             Inl e \<Rightarrow> Inl e
           | Inr ui_component \<Rightarrow>
               if \<not> truthy_opt prompt \<and> \<not> truthy_opt ui_component
               then Inr (Some invalid_message_format)
               else
                 (let promptElement =
                        (if truthy_opt prompt then Some (Paragraph ''mb-1'' [prompt]) else None) in
                  case ui_component of
                    None \<Rightarrow> Inr promptElement
                  | Some c \<Rightarrow>
                      if \<not> truthy c then Inr promptElement
                      else
                        (case get_member c ''type'' of
                           Inl e \<Rightarrow> Inl e
                         | Inr componentType \<Rightarrow>
                             Inr (Some (Division promptElement
                                (case widget_of componentType of
                                   Some w \<Rightarrow> Control w c disabled
                                 | None \<Rightarrow> unsupported_ui_type componentType)))))))"

definition renderDynamicComponent :: "json option \<Rightarrow> bool \<Rightarrow> js_error + element option" where
  "renderDynamicComponent instructionContent disabled =
     (case instructionContent of
        Some (JStr s) \<Rightarrow> Inr (Some (Paragraph [] [Some (JStr s)]))
      | None \<Rightarrow> Inr (Some invalid_message_format)
      | Some c \<Rightarrow>
          if \<not> truthy c then Inr (Some invalid_message_format)
          else render_instruction c disabled)"



subsection \<open>The message list of \<^verbatim>\<open>ChatInterface\<close>\<close>

text \<open>
  The guard of the error banner, \<^verbatim>\<open>fetchError && !isLoading && <p ...>\<close>, is evaluated as
  the language evaluates it: an identifier is looked up in the scope, where a name that
  is bound nowhere throws a \<^verbatim>\<open>ReferenceError\<close>, and \<^verbatim>\<open>&&\<close> evaluates its right operand
  only when the left one is truthy.
\<close>

datatype expr =
    Var string
  | Not expr
  | And expr expr
  | JsxElement

fun eval_truthy :: "(string \<times> bool) list \<Rightarrow> expr \<Rightarrow> js_error + bool" where
  "eval_truthy scope (Var x) =
     (case map_of scope x of
        None \<Rightarrow> Inl (ReferenceError (x @ '' is not defined''))
      | Some b \<Rightarrow> Inr b)"
| "eval_truthy scope (Not e) =
     (case eval_truthy scope e of Inl err \<Rightarrow> Inl err | Inr b \<Rightarrow> Inr (\<not> b))"
| "eval_truthy scope (And a b) =
     (case eval_truthy scope a of
        Inl err \<Rightarrow> Inl err
      | Inr t \<Rightarrow> if t then eval_truthy scope b else Inr False)"
| "eval_truthy scope JsxElement = Inr True"

text \<open>
  The identifiers bound where the component returns its elements, each with the
  truthiness of its value: the imports, the constants and functions of the module, and
  the constants of the component. Functions, objects and arrays are truthy. The name
  \<^verbatim>\<open>isLoading\<close> is read by the guard and appears nowhere else in the file.
\<close>

definition module_scope :: "(string \<times> bool) list" where
  "module_scope = map (\<lambda>x. (x, True))
     [''React'', ''useState'', ''useEffect'', ''useCallback'', ''useRef'', ''DatePicker'',
      ''formatDate'', ''parseISO'', ''Send'', ''Bot'', ''User'', ''Loader2'', ''CheckSquare'',
      ''Calendar'', ''Code'', ''Tags'', ''Clock'', ''List'', ''API_BASE_URL'',
      ''CHAT_ENDPOINT'', ''OPERATIONS_ENDPOINT'', ''USER_ID'', ''logger'', ''fetchApi'',
      ''ChatTextInput'', ''ChatDropdown'', ''ChatNumberInput'', ''ChatCheckbox'',
      ''ChatDatePickerNative'', ''ChatJsonInput'', ''ChatDateTimePicker'', ''ChatTagsInput'',
      ''OperationSelector'', ''ChatInterface'']"

definition ChatInterface_scope :: "'v chat_state \<Rightarrow> (string \<times> bool) list" where
  "ChatInterface_scope st =
     [(''messages'', True), (''setMessages'', True),
      (''isAssistantTyping'', isAssistantTyping st), (''setIsAssistantTyping'', True),
      (''currentInteractionDisabled'', currentInteractionDisabled st),
      (''setCurrentInteractionDisabled'', True),
      (''availableOperations'', True), (''setAvailableOperations'', True),
      (''fetchError'', (case fetchError st of None \<Rightarrow> False | Some s \<Rightarrow> s \<noteq> [])),
      (''setFetchError'', True),
      (''currentApiOperation'', currentApiOperation st \<noteq> None),
      (''setCurrentApiOperation'', True),
      (''chatEndRef'', True), (''scrollToBottom'', True), (''addMessage'', True),
      (''handleUserInput'', True), (''handleDynamicInputSubmit'', True),
      (''renderDynamicComponent'', True)]
     @ module_scope"

definition banner_guard :: expr where
  "banner_guard = And (And (Var ''fetchError'') (Not (Var ''isLoading''))) JsxElement"

text \<open>A message's bubble: the dynamic rendering for an assistant message whose content
  has type \<^verbatim>\<open>object\<close>, else a paragraph of the content, serialised when it is an object.\<close>

datatype bubble =
    Dynamic "element option"
  | Plain "json option"
  | Serialised json

definition message_bubble :: "bool \<Rightarrow> message \<Rightarrow> js_error + bubble" where
  "message_bubble disabled msg =
     (if sender msg = Assistant \<and> typeof (content msg) = ''object''
      then (case renderDynamicComponent (content msg) disabled of
              Inl e \<Rightarrow> Inl e
            | Inr el \<Rightarrow> Inr (Dynamic el))
      else (case content msg of
              None \<Rightarrow> Inr (Plain None)
            | Some c \<Rightarrow> if typeof (Some c) = ''object'' then Inr (Serialised c)
                        else Inr (Plain (Some c))))"

record view =
  selector_disabled :: bool
  selector_current :: "api_details option"
  error_banner :: "string option"
  bubbles :: "bubble list"
  typing_indicator :: bool

text \<open>The elements \<^verbatim>\<open>ChatInterface\<close> returns, evaluated in the order they are written:
  the selector's properties, the banner, the bubbles, the typing indicator.\<close>

definition ChatInterface_render :: "'v chat_state \<Rightarrow> js_error + view" where
  "ChatInterface_render st =
     (case eval_truthy (ChatInterface_scope st) banner_guard of
        Inl e \<Rightarrow> Inl e
      | Inr show_banner \<Rightarrow>
          (case map_throwing (message_bubble (currentInteractionDisabled st)) (messages st) of
             Inl e \<Rightarrow> Inl e
           | Inr bs \<Rightarrow>
               Inr \<lparr>selector_disabled = OperationSelector_disabled st,
                    selector_current = currentApiOperation st,
                    error_banner = (if show_banner then fetchError st else None),
                    bubbles = bs,
                    typing_indicator = isAssistantTyping st\<rparr>))"


section \<open>Notions of the specification\<close>

text \<open>An operation is resolvable when it carries an HTTP path and an HTTP method.\<close>

definition resolvable :: "api_details option \<Rightarrow> bool" where
  "resolvable d =
     (case d of
        None \<Rightarrow> False
      | Some x \<Rightarrow> (case api_path x of None \<Rightarrow> False | Some p \<Rightarrow> p \<noteq> [])
                  \<and> (case api_method x of None \<Rightarrow> False | Some m \<Rightarrow> m \<noteq> []))"



text \<open>The tag list: the delimiter keys, the numeric item types, and the coerced value of
  a token, which does not exist when a numeric token does not parse to a number.\<close>

definition delimiter_key :: "string \<Rightarrow> bool" where
  "delimiter_key key = (key = '','' \<or> key = '' '' \<or> key = ''Enter'')"

definition numeric_item_type :: "string \<Rightarrow> bool" where
  "numeric_item_type item_type = (item_type = ''integer'' \<or> item_type = ''number'')"

definition coerce_token :: "(string \<Rightarrow> 'n option) \<Rightarrow> string \<Rightarrow> string \<Rightarrow> 'n tag option" where
  "coerce_token parseFloat item_type token =
     (if numeric_item_type item_type then map_option TagNumber (parseFloat token)
      else Some (TagString token))"

text \<open>
  The round-trip invariant of the controller: at most one chat call is in flight, input
  is locked and the typing indicator is on while one is, and an error text of the catalog
  fetch is never empty.
\<close>

definition round_trip_inv :: "'v chat_state \<Rightarrow> bool" where
  "round_trip_inv st =
     (length (chatInFlight st) \<le> 1
      \<and> (chatInFlight st \<noteq> [] \<longrightarrow> currentInteractionDisabled st \<and> isAssistantTyping st)
      \<and> (\<forall>s. fetchError st = Some s \<longrightarrow> s \<noteq> []))"

section \<open>Example data\<close>

text \<open>The catalog of the specification's scenario A, with a second entry that lacks a
  path; the state once the catalog has arrived; and the state after the first entry has
  been selected, when the intent request is in flight. The widgets of the examples submit
  JSON values.\<close>

definition pets :: operation where
  "pets = \<lparr>op_id = ''op1'', op_method = Some ''post'', op_path = Some ''/pets'',
           summary = ''Create Pet''\<rparr>"

definition pathless :: operation where
  "pathless = \<lparr>op_id = ''op2'', op_method = Some ''get'', op_path = None,
               summary = ''List Pets''\<rparr>"

definition catalog_loaded :: "json chat_state" where
  "catalog_loaded = run_events [CatalogSettled (Inr [pets, pathless])] mounted"

definition collecting :: "json chat_state" where
  "collecting = run_events [CatalogSettled (Inr [pets, pathless]), SelectOperation ''op1''] mounted"

definition hello :: message where
  "hello = \<lparr>sender = Assistant, content = Some (JObj [(''prompt'', JStr
              ''Hello! Please select an API operation above to begin.''),
              (''ui_component'', JNull)])\<rparr>"

text \<open>
  A stand-in for \<^verbatim>\<open>parseFloat\<close> in the examples: the number written by the leading
  decimal digits of the string, and \<^verbatim>\<open>NaN\<close> when there is none. It agrees with
  \<^verbatim>\<open>parseFloat\<close> on the strings the examples use, \<open>12\<close> and \<open>abc\<close>. A stand-in for
  \<^verbatim>\<open>JSON.parse\<close> likewise: it parses the empty object and refuses every other text.
\<close>

definition is_digit :: "char \<Rightarrow> bool" where
  "is_digit c = (c \<in> set ''0123456789'')"

definition digit_value :: "char \<Rightarrow> nat" where
  "digit_value c = length (takeWhile (\<lambda>d. d \<noteq> c) ''0123456789'')"

definition leading_decimal :: "string \<Rightarrow> nat option" where
  "leading_decimal s =
     (let ds = takeWhile is_digit s in
      if ds = [] then None else Some (foldl (\<lambda>a c. 10 * a + digit_value c) 0 ds))"

definition parse_empty_object :: "string \<Rightarrow> js_error + json" where
  "parse_empty_object s =
     (if trim s = ''{}'' then Inr (JObj []) else Inl (SyntaxError ''Unexpected token''))"

section \<open>Properties of \<^verbatim>\<open>fetchApi\<close>\<close>





section \<open>Properties of the dialogue controller\<close>

subsection \<open>The example states, evaluated\<close>

lemma catalog_loaded_eq:
  "catalog_loaded =
     \<lparr>messages = [hello],
      isAssistantTyping = False, currentInteractionDisabled = False,
      availableOperations = [pets, pathless], fetchError = None,
      currentApiOperation = None, chatInFlight = [], catalogInFlight = False\<rparr>"
  by (simp add: catalog_loaded_def mounted_def run_def fetchOps_start_def initial_state_def
      fetchOps_settle_def prompt_message_def hello_def)

lemma collecting_eq:
  "collecting =
     \<lparr>messages = [hello, \<lparr>sender = User, content = Some (JStr ''Create Pet'')\<rparr>],
      isAssistantTyping = True, currentInteractionDisabled = True,
      availableOperations = [pets, pathless], fetchError = None,
      currentApiOperation = Some \<lparr>api_path = Some ''/pets'', api_method = Some ''post''\<rparr>,
      chatInFlight = [IntentBody ''ui_user_enh'' ''Create Pet'' ''/pets'' ''post''],
      catalogInFlight = False\<rparr>"
proof -
  have "collecting = dispatch (SelectOperation ''op1'') catalog_loaded"
    by (simp add: collecting_def catalog_loaded_def)
  then show ?thesis
    by (simp add: catalog_loaded_eq OperationSelector_disabled_def
        OperationSelector_handleChange_def pets_def pathless_def handleUserInput_start_def
        build_request_def USER_ID_def run_def)
qed

subsection \<open>The synchronous part of \<^verbatim>\<open>handleUserInput\<close>\<close>

lemma build_request_unmapped:
  "\<not> resolvable d \<Longrightarrow> build_request (Intent v d) = unmapped_intent v"
  by (auto simp: resolvable_def build_request_def split: option.splits)

lemma build_request_cases:
  "build_request input = unmapped_intent (case input of Intent v d \<Rightarrow> v | _ \<Rightarrow> [])
   \<or> (\<exists>b. build_request input = [FetchChat b])"
  by (cases input) (auto simp: build_request_def split: option.splits)

lemma start_state:
  "run (handleUserInput_start input) st =
     (case input of
        Intent v d \<Rightarrow> run (build_request input)
           (st\<lparr>messages := messages st @ [\<lparr>sender = User, content = Some (JStr v)\<rparr>],
               currentApiOperation := d, isAssistantTyping := True,
               currentInteractionDisabled := True, fetchError := None\<rparr>)
      | _ \<Rightarrow> run (build_request input)
           (st\<lparr>isAssistantTyping := True,
               currentInteractionDisabled := True, fetchError := None\<rparr>))"
  by (cases input) (simp_all add: handleUserInput_start_def run_def)

lemma start_order:
  assumes "FetchChat body \<in> set (handleUserInput_start input)"
  shows "\<exists>pre. handleUserInput_start input = pre @ [FetchChat body]
           \<and> SetCurrentInteractionDisabled True \<in> set pre
           \<and> SetCurrentInteractionDisabled False \<notin> set pre
           \<and> (\<forall>b. FetchChat b \<notin> set pre)
           \<and> (\<forall>v d. input = Intent v d \<longrightarrow> AddMessage User (Some (JStr v)) \<in> set pre)"
proof -
  let ?pre = "(case input of
        Intent v apiDetails \<Rightarrow> [AddMessage User (Some (JStr v)), SetCurrentApiOperation apiDetails]
      | _ \<Rightarrow> [])
     @ [SetIsAssistantTyping True, SetCurrentInteractionDisabled True, SetFetchError None]"
  from build_request_cases [of input] have req: "build_request input = [FetchChat body]"
  proof
    assume "build_request input = unmapped_intent (case input of Intent v d \<Rightarrow> v | _ \<Rightarrow> [])"
    with assms show ?thesis
      by (cases input) (auto simp: handleUserInput_start_def unmapped_intent_def)
  next
    assume "\<exists>b. build_request input = [FetchChat b]"
    then obtain b where b: "build_request input = [FetchChat b]" ..
    with assms have "b = body"
      by (cases input) (auto simp: handleUserInput_start_def)
    with b show ?thesis by simp
  qed
  have "handleUserInput_start input = ?pre @ [FetchChat body]"
    by (simp add: handleUserInput_start_def req)
  moreover have "SetCurrentInteractionDisabled True \<in> set ?pre"
    by simp
  moreover have "SetCurrentInteractionDisabled False \<notin> set ?pre"
    by (cases input) simp_all
  moreover have "\<forall>b. FetchChat b \<notin> set ?pre"
    by (cases input) simp_all
  moreover have "\<forall>v d. input = Intent v d \<longrightarrow> AddMessage User (Some (JStr v)) \<in> set ?pre"
    by simp
  ultimately show ?thesis by blast
qed

subsection \<open>The part after the call has settled\<close>

lemma settle_shape:
  "(\<exists>c rest. (handleUserInput_settle fr :: 'v effect list)
               = AddMessage Assistant c # SetCurrentInteractionDisabled False # rest)
   \<or> (handleUserInput_settle fr :: 'v effect list) = [SetIsAssistantTyping False]"
  by (auto simp: handleUserInput_settle_def on_chat_response_def on_chat_error_def
      split: sum.splits)

lemma settle_order:
  fixes pre :: "'v effect list"
  assumes "handleUserInput_settle fr = pre @ SetCurrentInteractionDisabled False # post"
  shows "\<exists>c. AddMessage Assistant c \<in> set pre"
proof -
  from settle_shape [of fr] show ?thesis
  proof
    assume "\<exists>c rest. (handleUserInput_settle fr :: 'v effect list)
               = AddMessage Assistant c # SetCurrentInteractionDisabled False # rest"
    then obtain c rest where e: "(handleUserInput_settle fr :: 'v effect list)
               = AddMessage Assistant c # SetCurrentInteractionDisabled False # rest"
      by blast
    with assms obtain p ps where "pre = p # ps" by (cases pre) auto
    with assms e have "p = AddMessage Assistant c" by simp
    with \<open>pre = p # ps\<close> show ?thesis by auto
  next
    assume "(handleUserInput_settle fr :: 'v effect list) = [SetIsAssistantTyping False]"
    with assms show ?thesis by (cases pre) auto
  qed
qed

lemma settle_keeps:
  "chatInFlight (run (handleUserInput_settle fr) st) = chatInFlight st
   \<and> fetchError (run (handleUserInput_settle fr) st) = fetchError st"
  by (auto simp: handleUserInput_settle_def on_chat_response_def on_chat_error_def run_def
      split: sum.splits)

lemma settle_terminal:
  assumes "ok r" "status r \<noteq> 204" "body_json r = Some (JObj kvs)"
    and "map_of kvs ''type'' = Some (JStr t)" "t = ''final_message'' \<or> t = ''error_message''"
  shows "handleUserInput_settle (Resolved r) =
           [AddMessage Assistant (Some (prompt_message (map_of kvs ''text''))),
            SetCurrentInteractionDisabled False, SetCurrentApiOperation None,
            SetIsAssistantTyping False]"
  using assms by (auto simp: handleUserInput_settle_def fetchApi_def on_chat_response_def)

subsection \<open>The round-trip invariant\<close>

lemma inv_mounted: "round_trip_inv mounted"
  by (simp add: round_trip_inv_def mounted_def run_def fetchOps_start_def initial_state_def)

lemma inv_start:
  assumes "chatInFlight st = []"
  shows "round_trip_inv (run (handleUserInput_start input) st)"
proof -
  from build_request_cases [of input] show ?thesis
  proof
    assume "build_request input = unmapped_intent (case input of Intent v d \<Rightarrow> v | _ \<Rightarrow> [])"
    then show ?thesis using assms
      by (cases input)
        (simp_all add: start_state, simp_all add: round_trip_inv_def run_def unmapped_intent_def)
  next
    assume "\<exists>b. build_request input = [FetchChat b]"
    then obtain b where "build_request input = [FetchChat b]" ..
    then show ?thesis using assms
      by (cases input) (simp_all add: start_state, simp_all add: round_trip_inv_def run_def)
  qed
qed

lemma catalog_keeps:
  "chatInFlight (run (fetchOps_settle res) st) = chatInFlight st
   \<and> currentInteractionDisabled (run (fetchOps_settle res) st) = currentInteractionDisabled st
   \<and> isAssistantTyping (run (fetchOps_settle res) st) = isAssistantTyping st
   \<and> (\<forall>s. fetchError (run (fetchOps_settle res) st) = Some s
          \<longrightarrow> s \<noteq> [] \<or> fetchError st = Some s)"
  by (auto simp: fetchOps_settle_def run_def Let_def split: sum.splits)

lemma inv_dispatch:
  assumes "round_trip_inv st"
  shows "round_trip_inv (dispatch ev st)"
proof (cases ev)
  case (SelectOperation opId)
  show ?thesis
  proof (cases "OperationSelector_disabled st")
    case True
    then show ?thesis using assms SelectOperation by simp
  next
    case False
    then have "chatInFlight st = []"
      using assms by (auto simp: OperationSelector_disabled_def round_trip_inv_def)
    then show ?thesis
      using assms False SelectOperation by (auto simp: inv_start split: option.splits)
  qed
next
  case (SubmitParameter name v)
  show ?thesis
  proof (cases "currentInteractionDisabled st")
    case True
    then show ?thesis using assms SubmitParameter by simp
  next
    case False
    then have "chatInFlight st = []"
      using assms by (auto simp: round_trip_inv_def)
    then show ?thesis
      using False SubmitParameter by (simp add: inv_start)
  qed
next
  case (ChatSettled i fr)
  show ?thesis
  proof (cases "i < length (chatInFlight st)")
    case False
    then show ?thesis using assms ChatSettled by simp
  next
    case True
    with assms have "take i (chatInFlight st) @ drop (Suc i) (chatInFlight st) = []"
      by (auto simp: round_trip_inv_def)
    then show ?thesis
      using assms True ChatSettled by (simp add: round_trip_inv_def settle_keeps)
  qed
next
  case (CatalogSettled res)
  show ?thesis
  proof (cases "catalogInFlight st")
    case False
    then show ?thesis using assms CatalogSettled by simp
  next
    case True
    let ?st = "st\<lparr>catalogInFlight := False\<rparr>"
    from catalog_keeps [of res ?st] assms show ?thesis
      using True CatalogSettled by (auto simp: round_trip_inv_def)
  qed
qed

lemma inv_run_events: "round_trip_inv st \<Longrightarrow> round_trip_inv (run_events evs st)"
  by (induction evs arbitrary: st) (simp_all add: inv_dispatch)

lemma inv_reachable: "round_trip_inv (run_events evs mounted)"
  by (simp add: inv_run_events inv_mounted)

subsection \<open>Claims about the controller\<close>

text \<open>
  Claim C1. The specification asks that a reply whose \<^verbatim>\<open>type\<close> is none of
  \<^verbatim>\<open>ui_instruction\<close>, \<^verbatim>\<open>final_message\<close>, \<^verbatim>\<open>error_message\<close> ends the flow: a generic
  message, the bound operation cleared, input unlocked. The program does none of this.
  With the intent request of the example in flight, a reply of type \<^verbatim>\<open>progress\<close> only
  switches the typing indicator off: no message is appended, the operation stays bound,
  input stays locked, and from then on every selection and every widget submission is
  ignored.
\<close>

theorem unknown_reply_type_leaves_input_locked:
  "(let st = dispatch (ChatSettled 0 (Resolved \<lparr>status = 200,
               body_json = Some (JObj [(''type'', JStr ''progress''),
                                       (''text'', JStr ''working'')])\<rparr>))
             collecting
    in st = collecting\<lparr>isAssistantTyping := False, chatInFlight := []\<rparr>
       \<and> messages st = messages collecting
       \<and> currentInteractionDisabled st
       \<and> currentApiOperation st = Some \<lparr>api_path = Some ''/pets'', api_method = Some ''post''\<rparr>
       \<and> (\<forall>opId. dispatch (SelectOperation opId) st = st)
       \<and> (\<forall>name v. dispatch (SubmitParameter name v) st = st))"
  by (simp add: Let_def collecting_eq handleUserInput_settle_def fetchApi_def ok_def
      on_chat_response_def run_def OperationSelector_disabled_def)

text \<open>
  Claim C2. In \<^verbatim>\<open>handleUserInput\<close> the call of the chat endpoint is the last thing done
  before the \<^verbatim>\<open>await\<close>, after input has been locked and after the user message of an
  intent has been appended. In every state the interface can reach, at most one chat call
  is in flight, and input is locked while one is. While input is locked, a widget
  submission and an operation selection leave the state as it is. When the call settles,
  input is unlocked only after an assistant message, the reply or the error, has been
  appended.
\<close>

theorem input_locked_during_round_trip:
  fixes evs :: "'v event list" and input :: "'v user_input" and pre post :: "'v effect list"
  shows
  "(FetchChat body \<in> set (handleUserInput_start input) \<longrightarrow>
      (\<exists>before. handleUserInput_start input = before @ [FetchChat body]
         \<and> SetCurrentInteractionDisabled True \<in> set before
         \<and> SetCurrentInteractionDisabled False \<notin> set before
         \<and> (\<forall>b. FetchChat b \<notin> set before)
         \<and> (\<forall>v d. input = Intent v d \<longrightarrow> AddMessage User (Some (JStr v)) \<in> set before)))
   \<and> length (chatInFlight (run_events evs mounted)) \<le> 1
   \<and> (chatInFlight (run_events evs mounted) \<noteq> []
        \<longrightarrow> currentInteractionDisabled (run_events evs mounted))
   \<and> (currentInteractionDisabled st
        \<longrightarrow> dispatch (SubmitParameter name x) st = st
            \<and> dispatch (SelectOperation opId) st = st)
   \<and> (handleUserInput_settle fr = pre @ SetCurrentInteractionDisabled False # post
        \<longrightarrow> (\<exists>c. AddMessage Assistant c \<in> set pre))"
proof (intro conjI impI)
  assume "FetchChat body \<in> set (handleUserInput_start input)"
  then show "\<exists>before. handleUserInput_start input = before @ [FetchChat body]
         \<and> SetCurrentInteractionDisabled True \<in> set before
         \<and> SetCurrentInteractionDisabled False \<notin> set before
         \<and> (\<forall>b. FetchChat b \<notin> set before)
         \<and> (\<forall>v d. input = Intent v d \<longrightarrow> AddMessage User (Some (JStr v)) \<in> set before)"
    by (rule start_order)
next
  show "length (chatInFlight (run_events evs mounted)) \<le> 1"
    using inv_reachable [of evs] by (simp add: round_trip_inv_def)
next
  assume "chatInFlight (run_events evs mounted) \<noteq> []"
  then show "currentInteractionDisabled (run_events evs mounted)"
    using inv_reachable [of evs] by (simp add: round_trip_inv_def)
next
  assume "currentInteractionDisabled st"
  then show "dispatch (SubmitParameter name x) st = st"
    by simp
next
  assume "currentInteractionDisabled st"
  then show "dispatch (SelectOperation opId) st = st"
    by (simp add: OperationSelector_disabled_def)
next
  assume "handleUserInput_settle fr = pre @ SetCurrentInteractionDisabled False # post"
  then show "\<exists>c. AddMessage Assistant c \<in> set pre"
    by (rule settle_order)
qed

theorem input_locked_during_round_trip_witness:
  "chatInFlight collecting
     = [IntentBody ''ui_user_enh'' ''Create Pet'' ''/pets'' ''post'']
   \<and> currentInteractionDisabled collecting
   \<and> dispatch (SubmitParameter ''name'' (JStr ''Rex'')) collecting = collecting
   \<and> dispatch (SelectOperation ''op2'') collecting = collecting
   \<and> (\<exists>before. handleUserInput_start (Parameter ''name'' (JStr ''Rex''))
         = before @ [FetchChat (ParameterBody ''ui_user_enh'' ''name'' (JStr ''Rex''))]
         \<and> SetCurrentInteractionDisabled True \<in> set before)
   \<and> (\<exists>c. AddMessage Assistant c \<in> set
         [AddMessage Assistant (Some (JObj [(''prompt'', JStr ''Error: Failed to fetch''),
            (''ui_component'', JNull)])) :: json effect])"
proof -
  let ?evs = "[CatalogSettled (Inr [pets, pathless]), SelectOperation ''op1''] :: json event list"
  let ?input = "Parameter ''name'' (JStr ''Rex'') :: json user_input"
  let ?body = "ParameterBody ''ui_user_enh'' ''name'' (JStr ''Rex'') :: json request_body"
  let ?fr = "Rejected (TypeError ''Failed to fetch'')"
  let ?pre = "[AddMessage Assistant (Some (JObj [(''prompt'', JStr ''Error: Failed to fetch''),
            (''ui_component'', JNull)]))] :: json effect list"
  let ?post = "[SetCurrentApiOperation None, SetIsAssistantTyping False] :: json effect list"
  note main = input_locked_during_round_trip [of ?body ?input ?evs collecting
      "''name''" "JStr ''Rex''" "''op2''" ?fr ?pre ?post]
  have run: "run_events ?evs mounted = collecting"
    by (simp add: collecting_def)
  have flight: "chatInFlight collecting
     = [IntentBody ''ui_user_enh'' ''Create Pet'' ''/pets'' ''post'']"
    by (simp add: collecting_eq)
  have issued: "FetchChat ?body \<in> set (handleUserInput_start ?input)"
    by (simp add: handleUserInput_start_def build_request_def USER_ID_def)
  have settled: "handleUserInput_settle ?fr = ?pre @ SetCurrentInteractionDisabled False # ?post"
    by (simp add: handleUserInput_settle_def fetchApi_def on_chat_error_def error_message_def
        prompt_message_def)
  from main flight run have locked: "currentInteractionDisabled collecting"
    by simp
  from main locked have ignored:
    "dispatch (SubmitParameter ''name'' (JStr ''Rex'')) collecting = collecting
     \<and> dispatch (SelectOperation ''op2'') collecting = collecting"
    by blast
  from main issued have ordered:
    "\<exists>before. handleUserInput_start ?input = before @ [FetchChat ?body]
         \<and> SetCurrentInteractionDisabled True \<in> set before"
    by blast
  from main settled have replied: "\<exists>c. AddMessage Assistant c \<in> set ?pre"
    by blast
  from flight locked ignored ordered replied show ?thesis
    by blast
qed

text \<open>
  Claim C4. A reply of type \<^verbatim>\<open>final_message\<close> or \<^verbatim>\<open>error_message\<close> that carries a text,
  arriving while the request is in flight, appends one assistant message holding that
  text as its prompt and \<^verbatim>\<open>null\<close> as its widget, clears the bound operation, unlocks
  input and switches the typing indicator off. After it the selector is enabled again,
  unless the catalog is empty.
\<close>

theorem terminal_reply_closes_flow:
  "ok r \<and> status r \<noteq> 204 \<and> body_json r = Some (JObj kvs)
   \<and> map_of kvs ''type'' = Some (JStr t) \<and> (t = ''final_message'' \<or> t = ''error_message'')
   \<and> map_of kvs ''text'' = Some (JStr reply) \<and> chatInFlight st = [body]
   \<longrightarrow> dispatch (ChatSettled 0 (Resolved r)) st =
         st\<lparr>messages := messages st @
               [\<lparr>sender = Assistant,
                 content = Some (JObj [(''prompt'', JStr reply), (''ui_component'', JNull)])\<rparr>],
             isAssistantTyping := False,
             currentInteractionDisabled := False,
             currentApiOperation := None,
             chatInFlight := []\<rparr>
       \<and> OperationSelector_disabled (dispatch (ChatSettled 0 (Resolved r)) st)
           = (availableOperations st = [])"
proof (intro impI)
  assume h: "ok r \<and> status r \<noteq> 204 \<and> body_json r = Some (JObj kvs)
   \<and> map_of kvs ''type'' = Some (JStr t) \<and> (t = ''final_message'' \<or> t = ''error_message'')
   \<and> map_of kvs ''text'' = Some (JStr reply) \<and> chatInFlight st = [body]"
  then have eff: "handleUserInput_settle (Resolved r) =
           [AddMessage Assistant (Some (prompt_message (map_of kvs ''text''))),
            SetCurrentInteractionDisabled False, SetCurrentApiOperation None,
            SetIsAssistantTyping False]"
    using settle_terminal by blast
  from h have after: "dispatch (ChatSettled 0 (Resolved r)) st =
         st\<lparr>messages := messages st @
               [\<lparr>sender = Assistant,
                 content = Some (JObj [(''prompt'', JStr reply), (''ui_component'', JNull)])\<rparr>],
             isAssistantTyping := False,
             currentInteractionDisabled := False,
             currentApiOperation := None,
             chatInFlight := []\<rparr>"
    by (simp add: eff run_def prompt_message_def)
  show "dispatch (ChatSettled 0 (Resolved r)) st =
         st\<lparr>messages := messages st @
               [\<lparr>sender = Assistant,
                 content = Some (JObj [(''prompt'', JStr reply), (''ui_component'', JNull)])\<rparr>],
             isAssistantTyping := False,
             currentInteractionDisabled := False,
             currentApiOperation := None,
             chatInFlight := []\<rparr>
       \<and> OperationSelector_disabled (dispatch (ChatSettled 0 (Resolved r)) st)
           = (availableOperations st = [])"
    by (simp only: after) (simp add: OperationSelector_disabled_def)
qed

theorem terminal_reply_closes_flow_witness:
  "dispatch (ChatSettled 0 (Resolved \<lparr>status = 200, body_json = Some (JObj
       [(''type'', JStr ''final_message''), (''text'', JStr ''Pet created'')])\<rparr>))
     collecting
   = \<lparr>messages = [hello, \<lparr>sender = User, content = Some (JStr ''Create Pet'')\<rparr>,
         \<lparr>sender = Assistant, content = Some (JObj [(''prompt'', JStr ''Pet created''),
            (''ui_component'', JNull)])\<rparr>],
      isAssistantTyping = False, currentInteractionDisabled = False,
      availableOperations = [pets, pathless], fetchError = None,
      currentApiOperation = None, chatInFlight = [], catalogInFlight = False\<rparr>
   \<and> \<not> OperationSelector_disabled
        (dispatch (ChatSettled 0 (Resolved \<lparr>status = 200, body_json = Some (JObj
            [(''type'', JStr ''final_message''), (''text'', JStr ''Pet created'')])\<rparr>))
          collecting)"
proof -
  let ?kvs = "[(''type'', JStr ''final_message''), (''text'', JStr ''Pet created'')]"
  let ?r = "\<lparr>status = 200, body_json = Some (JObj ?kvs)\<rparr>"
  let ?body = "IntentBody ''ui_user_enh'' ''Create Pet'' ''/pets'' ''post'' :: json request_body"
  have hyp: "ok ?r \<and> status ?r \<noteq> 204 \<and> body_json ?r = Some (JObj ?kvs)
     \<and> map_of ?kvs ''type'' = Some (JStr ''final_message'')
     \<and> (''final_message'' = ''final_message'' \<or> ''final_message'' = ''error_message'')
     \<and> map_of ?kvs ''text'' = Some (JStr ''Pet created'')
     \<and> chatInFlight collecting = [?body]"
    by (simp add: ok_def collecting_eq)
  have "dispatch (ChatSettled 0 (Resolved ?r)) collecting =
         collecting\<lparr>messages := messages collecting @
               [\<lparr>sender = Assistant,
                 content = Some (JObj [(''prompt'', JStr ''Pet created''),
                   (''ui_component'', JNull)])\<rparr>],
             isAssistantTyping := False,
             currentInteractionDisabled := False,
             currentApiOperation := None,
             chatInFlight := []\<rparr>
       \<and> OperationSelector_disabled (dispatch (ChatSettled 0 (Resolved ?r))
            collecting)
           = (availableOperations collecting = [])"
    by (rule mp [OF terminal_reply_closes_flow
          [of ?r ?kvs "''final_message''" "''Pet created''" collecting ?body] hyp])
  then have after: "dispatch (ChatSettled 0 (Resolved ?r)) collecting =
         collecting\<lparr>messages := messages collecting @
               [\<lparr>sender = Assistant,
                 content = Some (JObj [(''prompt'', JStr ''Pet created''),
                   (''ui_component'', JNull)])\<rparr>],
             isAssistantTyping := False,
             currentInteractionDisabled := False,
             currentApiOperation := None,
             chatInFlight := []\<rparr>"
    by (rule conjunct1)
  show ?thesis
    by (simp only: after) (simp add: collecting_eq OperationSelector_disabled_def)
qed

text \<open>
  Claim C5. An intent whose operation lacks a usable path or method starts no chat call.
  After the user message, an assistant message of apology is appended; input is unlocked,
  the typing indicator is off and no operation is bound. The calls in flight are those
  that were in flight before.
\<close>

theorem unmapped_intent_short_circuit:
  "\<not> resolvable d \<longrightarrow>
     (\<forall>body. FetchChat body \<notin> set (handleUserInput_start (Intent v d)))
     \<and> run (handleUserInput_start (Intent v d)) st =
         st\<lparr>messages := messages st @
               [\<lparr>sender = User, content = Some (JStr v)\<rparr>,
                \<lparr>sender = Assistant, content = Some (JObj [(''prompt'', JStr
                   (''Sorry, I couldn'' @ [CHR 0x27] @ ''t map '' @ [CHR 0x27] @ v @ [CHR 0x27]
                    @ '' to a known API action. Please select from the list.'')),
                   (''ui_component'', JNull)])\<rparr>],
             isAssistantTyping := False,
             currentInteractionDisabled := False,
             fetchError := None,
             currentApiOperation := None\<rparr>
     \<and> chatInFlight (run (handleUserInput_start (Intent v d)) st) = chatInFlight st"
proof (intro impI)
  assume "\<not> resolvable d"
  then have eff: "handleUserInput_start (Intent v d) =
      [AddMessage User (Some (JStr v)), SetCurrentApiOperation d,
       SetIsAssistantTyping True, SetCurrentInteractionDisabled True, SetFetchError None]
      @ unmapped_intent v"
    by (simp add: handleUserInput_start_def build_request_unmapped)
  show "(\<forall>body. FetchChat body \<notin> set (handleUserInput_start (Intent v d)))
     \<and> run (handleUserInput_start (Intent v d)) st =
         st\<lparr>messages := messages st @
               [\<lparr>sender = User, content = Some (JStr v)\<rparr>,
                \<lparr>sender = Assistant, content = Some (JObj [(''prompt'', JStr
                   (''Sorry, I couldn'' @ [CHR 0x27] @ ''t map '' @ [CHR 0x27] @ v @ [CHR 0x27]
                    @ '' to a known API action. Please select from the list.'')),
                   (''ui_component'', JNull)])\<rparr>],
             isAssistantTyping := False,
             currentInteractionDisabled := False,
             fetchError := None,
             currentApiOperation := None\<rparr>
     \<and> chatInFlight (run (handleUserInput_start (Intent v d)) st) = chatInFlight st"
    by (simp add: eff unmapped_intent_def run_def prompt_message_def)
qed

theorem unmapped_intent_short_circuit_witness:
  "dispatch (SelectOperation ''op2'') catalog_loaded
   = \<lparr>messages = [hello, \<lparr>sender = User, content = Some (JStr ''List Pets'')\<rparr>,
         \<lparr>sender = Assistant, content = Some (JObj [(''prompt'', JStr
            (''Sorry, I couldn'' @ [CHR 0x27] @ ''t map '' @ [CHR 0x27] @ ''List Pets''
             @ [CHR 0x27] @ '' to a known API action. Please select from the list.'')),
            (''ui_component'', JNull)])\<rparr>],
      isAssistantTyping = False, currentInteractionDisabled = False,
      availableOperations = [pets, pathless], fetchError = None,
      currentApiOperation = None, chatInFlight = [], catalogInFlight = False\<rparr>"
proof -
  let ?d = "Some \<lparr>api_path = None, api_method = Some ''get''\<rparr>"
  have hyp: "\<not> resolvable ?d"
    by (simp add: resolvable_def)
  have sel: "dispatch (SelectOperation ''op2'') catalog_loaded
      = run (handleUserInput_start (Intent ''List Pets'' ?d)) catalog_loaded"
    by (simp add: catalog_loaded_eq OperationSelector_disabled_def
        OperationSelector_handleChange_def pets_def pathless_def)
  have after: "run (handleUserInput_start (Intent ''List Pets'' ?d)) catalog_loaded =
         catalog_loaded\<lparr>messages := messages catalog_loaded @
               [\<lparr>sender = User, content = Some (JStr ''List Pets'')\<rparr>,
                \<lparr>sender = Assistant, content = Some (JObj [(''prompt'', JStr
                   (''Sorry, I couldn'' @ [CHR 0x27] @ ''t map '' @ [CHR 0x27] @ ''List Pets''
                    @ [CHR 0x27] @ '' to a known API action. Please select from the list.'')),
                   (''ui_component'', JNull)])\<rparr>],
             isAssistantTyping := False,
             currentInteractionDisabled := False,
             fetchError := None,
             currentApiOperation := None\<rparr>"
    by (rule conjunct1 [OF conjunct2 [OF mp [OF unmapped_intent_short_circuit
          [of ?d "''List Pets''" catalog_loaded] hyp]]])
  show ?thesis
    by (simp only: sel after) (simp add: catalog_loaded_eq)
qed

text \<open>
  Claim C6. While an operation is bound or input is locked, the selector is disabled and a
  selection changes nothing: the state is the same, so no user message has been appended
  and no call has been started. Selecting the bound operation again is such a selection.
\<close>

theorem selection_rejected_while_bound_or_locked:
  "currentApiOperation st \<noteq> None \<or> currentInteractionDisabled st
     \<longrightarrow> dispatch (SelectOperation opId) st = st
         \<and> messages (dispatch (SelectOperation opId) st) = messages st
         \<and> chatInFlight (dispatch (SelectOperation opId) st) = chatInFlight st"
  by (auto simp: OperationSelector_disabled_def)

theorem selection_rejected_while_bound_or_locked_witness:
  "currentApiOperation collecting
     = Some \<lparr>api_path = Some ''/pets'', api_method = Some ''post''\<rparr>
   \<and> dispatch (SelectOperation ''op1'') collecting = collecting"
proof -
  have bound: "currentApiOperation collecting
     = Some \<lparr>api_path = Some ''/pets'', api_method = Some ''post''\<rparr>"
    by (simp add: collecting_eq)
  then have "currentApiOperation collecting \<noteq> None
      \<or> currentInteractionDisabled collecting"
    by simp
  with selection_rejected_while_bound_or_locked [of collecting "''op1''"]
  have "dispatch (SelectOperation ''op1'') collecting = collecting"
    by blast
  with bound show ?thesis
    by blast
qed




section \<open>Properties of the widgets\<close>

subsection \<open>The tag list\<close>

lemma remove_index_offset:
  "map snd (filter (\<lambda>p. fst p \<noteq> i) (enumerate k xs))
     = (if i < k then xs else take (i - k) xs @ drop (Suc (i - k)) xs)"
proof (induction xs arbitrary: k)
  case Nil
  then show ?case by simp
next
  case (Cons x xs)
  show ?case
  proof (cases "i \<le> k")
    case True
    then show ?thesis using Cons.IH [of "Suc k"] by auto
  next
    case False
    then obtain m where m: "i - k = Suc m" "i - Suc k = m"
      by (cases "i - k") auto
    from False show ?thesis using Cons.IH [of "Suc k"] by (simp add: m)
  qed
qed

lemma remove_index_take_drop: "remove_index i xs = take i xs @ drop (Suc i) xs"
  using remove_index_offset [of i 0 xs] by (simp add: remove_index_def)

lemma handleKeyDown_delimiter:
  assumes "delimiter_key key" "trim (inputValue w) \<noteq> []"
  shows "handleKeyDown parseFloat name item_type key w =
     (case coerce_token parseFloat item_type (trim (inputValue w)) of
        None \<Rightarrow> (w, [PreventDefault,
                  Alert (''Tag '' @ [CHR 0x22] @ trim (inputValue w) @ [CHR 0x22]
                         @ '' is not a valid '' @ item_type @ ''.'')])
      | Some t \<Rightarrow> if t \<in> set (tags w) then (w\<lparr>inputValue := []\<rparr>, [PreventDefault])
                  else (w\<lparr>tags := tags w @ [t], inputValue := []\<rparr>,
                        [PreventDefault, OnSubmit name (tags w @ [t])]))"
  using assms
  by (auto simp: handleKeyDown_def delimiter_key_def coerce_token_def numeric_item_type_def
      Let_def split: option.splits)

lemma handleKeyDown_backspace:
  assumes "inputValue w = []" "tags w \<noteq> []"
  shows "handleKeyDown parseFloat name item_type ''Backspace'' w =
     (w\<lparr>tags := butlast (tags w)\<rparr>, [PreventDefault, OnSubmit name (butlast (tags w))])"
  using assms by (simp add: handleKeyDown_def Let_def trim_def)

lemma leading_decimal_examples:
  "leading_decimal ''12'' = Some 12" "leading_decimal ''abc'' = None"
  by (simp_all add: leading_decimal_def is_digit_def digit_value_def)

lemma trim_examples:
  "trim ''12'' = ''12''" "trim ''abc'' = ''abc''" "trim '' 7 '' = ''7''" "trim ''  '' = []"
  "trim ''{}'' = ''{}''" "trim ''{key:'' = ''{key:''"
  by (simp_all add: trim_def is_space_def)

text \<open>
  Claim C7, as the specification states it, fails in one point: a numeric token that does
  not parse is not discarded. With item type \<^verbatim>\<open>integer\<close>, the tag 12 committed and
  \<open>abc\<close> typed, a comma raises the alert and leaves the tag list as it was, and the
  staging input still holds \<open>abc\<close>: the handler returns before it clears the input.
\<close>

theorem rejected_token_stays_in_input:
  "handleKeyDown leading_decimal ''ids'' ''integer'' '',''
       \<lparr>inputValue = ''abc'', tags = [TagNumber 12]\<rparr>
     = (\<lparr>inputValue = ''abc'', tags = [TagNumber 12]\<rparr>,
        [PreventDefault,
         Alert (''Tag '' @ [CHR 0x22] @ ''abc'' @ [CHR 0x22] @ '' is not a valid integer.'')])
   \<and> inputValue (fst (handleKeyDown leading_decimal ''ids'' ''integer'' '',''
         \<lparr>inputValue = ''abc'', tags = [TagNumber 12]\<rparr>)) \<noteq> []"
  by (simp add: handleKeyDown_def trim_examples leading_decimal_examples)

text \<open>
  Claim C7, amended. On a delimiter key with a staging input that is not blank, the token
  is the trimmed input. A numeric token that does not parse raises an alert; the tag
  list and the staging input stay as they are and nothing is submitted. A token whose
  coerced value is already a tag is dropped without alert or submission, and the input is
  cleared. Any other token is appended, the input is cleared and the whole new list is
  submitted. Backspace on an empty input removes the last tag and submits the new list;
  removing the tag at an index submits the list without it. With item type
  \<^verbatim>\<open>integer\<close>, no tags and \<open>12\<close> typed, a comma submits the one-element list with
  the number that \<open>12\<close> parses to.
\<close>

theorem tag_list_add_remove_submit:
  "(delimiter_key key \<and> trim (inputValue w) \<noteq> []
      \<and> numeric_item_type item_type \<and> parseFloat (trim (inputValue w)) = None
      \<longrightarrow> handleKeyDown parseFloat name item_type key w =
            (w, [PreventDefault,
                 Alert (''Tag '' @ [CHR 0x22] @ trim (inputValue w) @ [CHR 0x22]
                        @ '' is not a valid '' @ item_type @ ''.'')]))
   \<and> (delimiter_key key \<and> trim (inputValue w) \<noteq> []
        \<and> coerce_token parseFloat item_type (trim (inputValue w)) = Some t \<and> t \<in> set (tags w)
      \<longrightarrow> handleKeyDown parseFloat name item_type key w = (w\<lparr>inputValue := []\<rparr>, [PreventDefault]))
   \<and> (delimiter_key key \<and> trim (inputValue w) \<noteq> []
        \<and> coerce_token parseFloat item_type (trim (inputValue w)) = Some t \<and> t \<notin> set (tags w)
      \<longrightarrow> handleKeyDown parseFloat name item_type key w =
            (w\<lparr>tags := tags w @ [t], inputValue := []\<rparr>,
             [PreventDefault, OnSubmit name (tags w @ [t])]))
   \<and> (inputValue w = [] \<and> tags w \<noteq> []
      \<longrightarrow> handleKeyDown parseFloat name item_type ''Backspace'' w =
            (w\<lparr>tags := butlast (tags w)\<rparr>,
             [PreventDefault, OnSubmit name (butlast (tags w))]))
   \<and> removeTag name i w =
        (w\<lparr>tags := take i (tags w) @ drop (Suc i) (tags w)\<rparr>,
         [OnSubmit name (take i (tags w) @ drop (Suc i) (tags w))])
   \<and> (parseFloat ''12'' = Some twelve
      \<longrightarrow> handleKeyDown parseFloat name ''integer'' '','' \<lparr>inputValue = ''12'', tags = []\<rparr> =
            (\<lparr>inputValue = [], tags = [TagNumber twelve]\<rparr>,
             [PreventDefault, OnSubmit name [TagNumber twelve]]))"
proof (intro conjI impI)
  assume h: "delimiter_key key \<and> trim (inputValue w) \<noteq> []
      \<and> numeric_item_type item_type \<and> parseFloat (trim (inputValue w)) = None"
  then have "coerce_token parseFloat item_type (trim (inputValue w)) = None"
    by (simp add: coerce_token_def)
  with h show "handleKeyDown parseFloat name item_type key w =
            (w, [PreventDefault,
                 Alert (''Tag '' @ [CHR 0x22] @ trim (inputValue w) @ [CHR 0x22]
                        @ '' is not a valid '' @ item_type @ ''.'')])"
    by (simp add: handleKeyDown_delimiter)
next
  assume "delimiter_key key \<and> trim (inputValue w) \<noteq> []
        \<and> coerce_token parseFloat item_type (trim (inputValue w)) = Some t \<and> t \<in> set (tags w)"
  then show "handleKeyDown parseFloat name item_type key w = (w\<lparr>inputValue := []\<rparr>, [PreventDefault])"
    by (simp add: handleKeyDown_delimiter)
next
  assume "delimiter_key key \<and> trim (inputValue w) \<noteq> []
        \<and> coerce_token parseFloat item_type (trim (inputValue w)) = Some t \<and> t \<notin> set (tags w)"
  then show "handleKeyDown parseFloat name item_type key w =
            (w\<lparr>tags := tags w @ [t], inputValue := []\<rparr>,
             [PreventDefault, OnSubmit name (tags w @ [t])])"
    by (simp add: handleKeyDown_delimiter)
next
  assume "inputValue w = [] \<and> tags w \<noteq> []"
  then show "handleKeyDown parseFloat name item_type ''Backspace'' w =
            (w\<lparr>tags := butlast (tags w)\<rparr>,
             [PreventDefault, OnSubmit name (butlast (tags w))])"
    by (simp add: handleKeyDown_backspace)
next
  show "removeTag name i w =
        (w\<lparr>tags := take i (tags w) @ drop (Suc i) (tags w)\<rparr>,
         [OnSubmit name (take i (tags w) @ drop (Suc i) (tags w))])"
    by (simp add: removeTag_def remove_index_take_drop Let_def)
next
  assume "parseFloat ''12'' = Some twelve"
  then show "handleKeyDown parseFloat name ''integer'' '','' \<lparr>inputValue = ''12'', tags = []\<rparr> =
            (\<lparr>inputValue = [], tags = [TagNumber twelve]\<rparr>,
             [PreventDefault, OnSubmit name [TagNumber twelve]])"
    by (simp add: handleKeyDown_def trim_examples Let_def)
qed

theorem tag_list_add_remove_submit_witness:
  "handleKeyDown leading_decimal ''ids'' ''integer'' ''Enter''
       \<lparr>inputValue = ''abc'', tags = [TagNumber 12]\<rparr>
     = (\<lparr>inputValue = ''abc'', tags = [TagNumber 12]\<rparr>,
        [PreventDefault,
         Alert (''Tag '' @ [CHR 0x22] @ ''abc'' @ [CHR 0x22] @ '' is not a valid integer.'')])
   \<and> handleKeyDown leading_decimal ''ids'' ''integer'' '' ''
       \<lparr>inputValue = ''12'', tags = [TagNumber 12]\<rparr>
     = (\<lparr>inputValue = [], tags = [TagNumber 12]\<rparr>, [PreventDefault])
   \<and> handleKeyDown leading_decimal ''ids'' ''string'' '',''
       \<lparr>inputValue = '' 7 '', tags = [TagString ''5'']\<rparr>
     = (\<lparr>inputValue = [], tags = [TagString ''5'', TagString ''7'']\<rparr>,
        [PreventDefault, OnSubmit ''ids'' [TagString ''5'', TagString ''7'']])
   \<and> handleKeyDown leading_decimal ''ids'' ''integer'' ''Backspace''
       \<lparr>inputValue = [], tags = [TagNumber 12, TagNumber 7]\<rparr>
     = (\<lparr>inputValue = [], tags = [TagNumber 12]\<rparr>,
        [PreventDefault, OnSubmit ''ids'' [TagNumber 12]])
   \<and> handleKeyDown leading_decimal ''ids'' ''integer'' '','' \<lparr>inputValue = ''12'', tags = []\<rparr>
     = (\<lparr>inputValue = [], tags = [TagNumber 12]\<rparr>,
        [PreventDefault, OnSubmit ''ids'' [TagNumber 12]])"
proof -
  let ?w1 = "\<lparr>inputValue = ''abc'', tags = [TagNumber (12::nat)]\<rparr>"
  let ?w2 = "\<lparr>inputValue = ''12'', tags = [TagNumber (12::nat)]\<rparr>"
  let ?w3 = "\<lparr>inputValue = '' 7 '', tags = [TagString ''5'' :: nat tag]\<rparr>"
  let ?w4 = "\<lparr>inputValue = [], tags = [TagNumber (12::nat), TagNumber 7]\<rparr>"
  have h1: "delimiter_key ''Enter'' \<and> trim (inputValue ?w1) \<noteq> []
      \<and> numeric_item_type ''integer'' \<and> leading_decimal (trim (inputValue ?w1)) = None"
    by (simp add: delimiter_key_def numeric_item_type_def trim_examples leading_decimal_examples)
  have h2: "delimiter_key '' '' \<and> trim (inputValue ?w2) \<noteq> []
      \<and> coerce_token leading_decimal ''integer'' (trim (inputValue ?w2)) = Some (TagNumber 12)
      \<and> TagNumber 12 \<in> set (tags ?w2)"
    by (simp add: delimiter_key_def numeric_item_type_def coerce_token_def trim_examples
        leading_decimal_examples)
  have h3: "delimiter_key '','' \<and> trim (inputValue ?w3) \<noteq> []
      \<and> coerce_token leading_decimal ''string'' (trim (inputValue ?w3)) = Some (TagString ''7'')
      \<and> TagString ''7'' \<notin> set (tags ?w3)"
    by (simp add: delimiter_key_def numeric_item_type_def coerce_token_def trim_examples)
  have h4: "inputValue ?w4 = [] \<and> tags ?w4 \<noteq> []"
    by simp
  have h5: "leading_decimal ''12'' = Some 12"
    by (simp add: leading_decimal_examples)
  note main = tag_list_add_remove_submit
  have r1: "handleKeyDown leading_decimal ''ids'' ''integer'' ''Enter'' ?w1 =
      (?w1, [PreventDefault,
             Alert (''Tag '' @ [CHR 0x22] @ trim (inputValue ?w1) @ [CHR 0x22]
                    @ '' is not a valid '' @ ''integer'' @ ''.'')])"
    using main [of "''Enter''" ?w1 "''integer''" leading_decimal "''ids''"] h1 by blast
  have r2: "handleKeyDown leading_decimal ''ids'' ''integer'' '' '' ?w2
      = (?w2\<lparr>inputValue := []\<rparr>, [PreventDefault])"
    using main [of "'' ''" ?w2 "''integer''" leading_decimal "''ids''" "TagNumber 12"] h2 by blast
  have r3: "handleKeyDown leading_decimal ''ids'' ''string'' '','' ?w3
      = (?w3\<lparr>tags := tags ?w3 @ [TagString ''7''], inputValue := []\<rparr>,
         [PreventDefault, OnSubmit ''ids'' (tags ?w3 @ [TagString ''7''])])"
    using main [of "'',''" ?w3 "''string''" leading_decimal "''ids''" "TagString ''7''"] h3 by blast
  have r4: "handleKeyDown leading_decimal ''ids'' ''integer'' ''Backspace'' ?w4
      = (?w4\<lparr>tags := butlast (tags ?w4)\<rparr>, [PreventDefault, OnSubmit ''ids'' (butlast (tags ?w4))])"
    using main [of _ ?w4 "''integer''" leading_decimal "''ids''"] h4 by blast
  have r5: "handleKeyDown leading_decimal ''ids'' ''integer'' '','' \<lparr>inputValue = ''12'', tags = []\<rparr>
      = (\<lparr>inputValue = [], tags = [TagNumber 12]\<rparr>, [PreventDefault, OnSubmit ''ids'' [TagNumber 12]])"
    using main [of _ _ _ leading_decimal "''ids''" _ _ 12] h5 by blast
  show ?thesis
    by (simp only: r1 r2 r3 r4 r5) (simp add: trim_examples)
qed

subsection \<open>The JSON field\<close>

text \<open>
  Claim C9. A submit of the JSON widget always calls the callback, exactly once: with
  \<^verbatim>\<open>null\<close> for a blank field, with the parsed document when the text parses, and with
  the text itself, after a warning, when it does not. The alert that asks to fix the JSON
  is never raised: the branch that holds it is not taken.
\<close>

theorem json_submit_never_blocked:
  "handleSubmit JSON_parse parameter_name v =
     (if trim v = [] then
        [PreventDefault, SetIsValidJson True, OnSubmit parameter_name JNull]
      else (case JSON_parse v of
              Inr doc \<Rightarrow> [PreventDefault, SetIsValidJson True, OnSubmit parameter_name doc]
            | Inl e \<Rightarrow> [PreventDefault, SetIsValidJson False,
                        Alert ''Warning: Submitting potentially invalid JSON string.'',
                        OnSubmit parameter_name (JStr v)]))
   \<and> Alert ''Please fix invalid JSON.'' \<notin> set (handleSubmit JSON_parse parameter_name v)
   \<and> (\<exists>x. filter (\<lambda>e. case e of OnSubmit n y \<Rightarrow> True | _ \<Rightarrow> False)
              (handleSubmit JSON_parse parameter_name v) = [OnSubmit parameter_name x])"
  by (auto simp: handleSubmit_def typeof_def split: sum.splits)

theorem json_submit_never_blocked_witness:
  "handleSubmit parse_empty_object ''filter'' ''  ''
     = [PreventDefault, SetIsValidJson True, OnSubmit ''filter'' JNull]
   \<and> handleSubmit parse_empty_object ''filter'' ''{}''
     = [PreventDefault, SetIsValidJson True, OnSubmit ''filter'' (JObj [])]
   \<and> handleSubmit parse_empty_object ''filter'' ''{key:''
     = [PreventDefault, SetIsValidJson False,
        Alert ''Warning: Submitting potentially invalid JSON string.'',
        OnSubmit ''filter'' (JStr ''{key:'')]"
proof -
  note main = json_submit_never_blocked [of parse_empty_object "''filter''"]
  have a: "handleSubmit parse_empty_object ''filter'' ''  ''
     = [PreventDefault, SetIsValidJson True, OnSubmit ''filter'' JNull]"
    using main [of "''  ''"] by (simp add: trim_examples)
  have b: "handleSubmit parse_empty_object ''filter'' ''{}''
     = [PreventDefault, SetIsValidJson True, OnSubmit ''filter'' (JObj [])]"
    using main [of "''{}''"] by (simp add: trim_examples parse_empty_object_def)
  have c: "handleSubmit parse_empty_object ''filter'' ''{key:''
     = [PreventDefault, SetIsValidJson False,
        Alert ''Warning: Submitting potentially invalid JSON string.'',
        OnSubmit ''filter'' (JStr ''{key:'')]"
    using main [of "''{key:''"] by (simp add: trim_examples parse_empty_object_def)
  from a b c show ?thesis
    by blast
qed

section \<open>Properties of rendering\<close>












text \<open>
  Claim C10. In every state the interface can reach in which \<^verbatim>\<open>fetchError\<close> is set,
  evaluating the elements of \<^verbatim>\<open>ChatInterface\<close> throws a \<^verbatim>\<open>ReferenceError\<close>: the guard of
  the error banner reads \<^verbatim>\<open>isLoading\<close>, which no scope binds. An error text is set only
  by a failed catalog fetch and is never empty, so the left operand of the guard is
  truthy and the read is reached. While \<^verbatim>\<open>fetchError\<close> is \<^verbatim>\<open>null\<close> the guard stops at its
  left operand and the name is not read.
\<close>

theorem catalog_failure_render_throws:
  "(fetchError (run_events evs mounted) \<noteq> None
      \<longrightarrow> ChatInterface_render (run_events evs mounted)
            = Inl (ReferenceError ''isLoading is not defined''))
   \<and> map_of (ChatInterface_scope st) ''isLoading'' = None
   \<and> (fetchError st = None
      \<longrightarrow> eval_truthy (ChatInterface_scope st) banner_guard = Inr False)"
proof (intro conjI impI)
  assume "fetchError (run_events evs mounted) \<noteq> None"
  then obtain s where s: "fetchError (run_events evs mounted) = Some s"
    by blast
  with inv_reachable [of evs] have "s \<noteq> []"
    by (simp add: round_trip_inv_def)
  with s show "ChatInterface_render (run_events evs mounted)
            = Inl (ReferenceError ''isLoading is not defined'')"
    by (simp add: ChatInterface_render_def banner_guard_def ChatInterface_scope_def
        module_scope_def)
next
  show "map_of (ChatInterface_scope st) ''isLoading'' = None"
    by (simp add: ChatInterface_scope_def module_scope_def)
next
  assume "fetchError st = None"
  then show "eval_truthy (ChatInterface_scope st) banner_guard = Inr False"
    by (simp add: banner_guard_def ChatInterface_scope_def module_scope_def)
qed

theorem catalog_failure_render_throws_witness:
  "fetchError (run_events [CatalogSettled (Inl (Error ''API Error: 500''))]
       (mounted :: json chat_state))
     = Some ''Failed to load available API operations: API Error: 500''
   \<and> ChatInterface_render (run_events [CatalogSettled (Inl (Error ''API Error: 500''))]
       (mounted :: json chat_state))
     = Inl (ReferenceError ''isLoading is not defined'')
   \<and> eval_truthy (ChatInterface_scope collecting) banner_guard = Inr False"
proof -
  let ?evs = "[CatalogSettled (Inl (Error ''API Error: 500''))] :: json event list"
  have failed: "fetchError (run_events ?evs mounted)
     = Some ''Failed to load available API operations: API Error: 500''"
    by (simp add: mounted_def run_def fetchOps_start_def initial_state_def fetchOps_settle_def
        error_message_def Let_def)
  then have h1: "fetchError (run_events ?evs mounted) \<noteq> None"
    by simp
  have h2: "fetchError collecting = None"
    by (simp add: collecting_eq)
  from catalog_failure_render_throws [of ?evs collecting] h1 h2
  have "ChatInterface_render (run_events ?evs mounted)
          = Inl (ReferenceError ''isLoading is not defined'')
        \<and> eval_truthy (ChatInterface_scope collecting) banner_guard = Inr False"
    by blast
  with failed show ?thesis
    by blast
qed

end
